theory Spec2Isabelle
  imports Complex_Main
begin

section \<open>JavaScript values and arrays as the hooks use them\<close>

text \<open>
  A JavaScript number is modelled as a real (a JSON payload carries no NaN), a \<open>Date\<close> as
  its millisecond count, an optional field \<open>f?: T\<close> as \<open>T option\<close>, a string as a
  \<open>string\<close>. The operator \<open>a || b\<close> yields \<open>b\<close> when \<open>a\<close> is falsy:
  \<open>undefined\<close>, the empty string, the number \<open>0\<close>, \<open>false\<close>.
\<close>

definition str_or :: "string option \<Rightarrow> string \<Rightarrow> string" where
  "str_or a b = (case a of None \<Rightarrow> b | Some s \<Rightarrow> (if s = [] then b else s))"

definition num_or :: "real option \<Rightarrow> real \<Rightarrow> real" where
  "num_or a b = (case a of None \<Rightarrow> b | Some n \<Rightarrow> (if n = 0 then b else n))"

definition arr_or :: "'a list option \<Rightarrow> 'a list \<Rightarrow> 'a list" where
  "arr_or a b = (case a of None \<Rightarrow> b | Some xs \<Rightarrow> xs)"

definition bool_or :: "bool option \<Rightarrow> bool \<Rightarrow> bool" where
  "bool_or a b = (case a of None \<Rightarrow> b | Some x \<Rightarrow> (if x then x else b))"

definition truthy_str :: "string option \<Rightarrow> bool" where
  "truthy_str a = (case a of None \<Rightarrow> False | Some s \<Rightarrow> s \<noteq> [])"

text \<open>
  An array that is written by index can be sparse. A position of it is a hole (never
  written), the value \<open>undefined\<close>, or an element. Reading a hole gives \<open>undefined\<close>;
  the spread \<open>[...xs]\<close> goes through the iterator and so fills every hole with
  \<open>undefined\<close>; \<open>xs.map(f)\<close> skips holes and calls \<open>f\<close> on everything else;
  \<open>xs[i] = v\<close> writes position \<open>i\<close> and pads with holes when \<open>i\<close> is beyond the end.
  Only a non-negative integer below \<open>2^32 - 1\<close> is an array index: with any other number
  the assignment sets an ordinary property and no position changes.
\<close>

datatype 'a slot = Hole | Undefined | Elem 'a


definition spread :: "'a slot list \<Rightarrow> 'a slot list" where
  "spread xs = map (\<lambda>s. case s of Hole \<Rightarrow> Undefined | Undefined \<Rightarrow> Undefined | Elem x \<Rightarrow> Elem x) xs"

definition is_array_index :: "real \<Rightarrow> bool" where
  "is_array_index i \<longleftrightarrow> 0 \<le> i \<and> i < 2 ^ 32 - 1 \<and> of_int \<lfloor>i\<rfloor> = i"

definition array_set :: "'a slot list \<Rightarrow> real \<Rightarrow> 'a \<Rightarrow> 'a slot list" where
  "array_set xs i v =
     (if is_array_index i then
        (let k = nat \<lfloor>i\<rfloor> in
           if k < length xs then xs[k := Elem v]
           else xs @ replicate (k - length xs) Hole @ [Elem v])
      else xs)"

definition array_map :: "('a option \<Rightarrow> 'b) \<Rightarrow> 'a slot list \<Rightarrow> 'b slot list" where
  "array_map f xs =
     map (\<lambda>s. case s of Hole \<Rightarrow> Hole | Undefined \<Rightarrow> Elem (f None) | Elem x \<Rightarrow> Elem (f (Some x))) xs"

section \<open>The streaming hook of agri-frontend/hooks/useStreamingChat.ts\<close>

record Source =
  src_id :: real
  src_title :: string
  src_type :: string
  src_confidence :: real
  src_url :: string

text \<open>
  The interface declares \<open>step\<close> and \<open>index\<close> as required, but the object that
  \<open>{...step, completed: true}\<close> builds from an \<open>undefined\<close> position has neither, so
  all three fields are optional in the model.
\<close>

record ReasoningStep =
  step :: "string option"
  index :: "real option"
  completed :: "bool option"

record WebSearchQuery =
  wq_query :: string
  wq_timestamp :: int
  wq_results :: "real option"

record StreamingMessage =
  m_type :: string
  m_message :: "string option"
  m_progress :: "real option"
  m_phase :: "string option"
  m_title :: "string option"
  m_status :: "string option"
  m_result :: "string option"
  m_sources :: "Source list option"
  m_step :: "string option"
  m_index :: "real option"
  m_chunk :: "string option"
  m_query :: "string option"
  m_response_id :: "string option"

record StreamingState =
  isStreaming :: bool
  progress :: real
  currentPhase :: string
  phaseTitle :: string
  sources :: "Source list"
  reasoningSteps :: "ReasoningStep slot list"
  webSearchQueries :: "WebSearchQuery list"
  streamingText :: string
  factCheckStatus :: string
  error :: "string option"

definition initialState :: StreamingState where
  "initialState =
     \<lparr>isStreaming = False, progress = 0, currentPhase = [], phaseTitle = [], sources = [],
      reasoningSteps = [], webSearchQueries = [], streamingText = [], factCheckStatus = [],
      error = None\<rparr>"

definition resetState :: StreamingState where
  "resetState =
     \<lparr>isStreaming = True, progress = 0, currentPhase = [], phaseTitle = [], sources = [],
      reasoningSteps = [], webSearchQueries = [], streamingText = [], factCheckStatus = [],
      error = None\<rparr>"

text \<open>The callback of \<open>prev.reasoningSteps.map\<close> in the \<open>completion\<close> case.\<close>

definition mark_completed :: "ReasoningStep option \<Rightarrow> ReasoningStep" where
  "mark_completed s =
     (case s of
        None \<Rightarrow> \<lparr>step = None, index = None, completed = Some True\<rparr>
      | Some r \<Rightarrow> r\<lparr>completed := Some True\<rparr>)"

text \<open>
  The updater passed to \<open>setStreamingState\<close> by \<open>eventSource.onmessage\<close>: the switch on
  \<open>data.type\<close>, case by case in the order of the source. \<open>now\<close> is what \<open>new Date()\<close>
  reads while the event is folded.
\<close>

definition onmessage_fold :: "int \<Rightarrow> StreamingState \<Rightarrow> StreamingMessage \<Rightarrow> StreamingState" where
  "onmessage_fold now prev d =
     (if m_type d = ''status'' then
        prev\<lparr>progress := num_or (m_progress d) 0\<rparr>
      else if m_type d = ''phase'' then
        prev\<lparr>currentPhase := str_or (m_phase d) [], phaseTitle := str_or (m_title d) []\<rparr>
      else if m_type d = ''phase_complete'' then
        prev\<lparr>progress := num_or (m_progress d) (progress prev)\<rparr>
      else if m_type d = ''sources_found'' then
        prev\<lparr>sources := arr_or (m_sources d) [],
             progress := num_or (m_progress d) (progress prev)\<rparr>
      else if m_type d = ''reasoning_step'' then
        (case m_index d of
           Some i \<Rightarrow>
             (if truthy_str (m_step d) then
                prev\<lparr>reasoningSteps :=
                  array_set (spread (reasoningSteps prev)) i
                    \<lparr>step = m_step d, index = Some i, completed = Some False\<rparr>\<rparr>
              else prev)
         | None \<Rightarrow> prev)
      else if m_type d = ''web_search_query'' then
        (case m_query d of
           Some q \<Rightarrow>
             (if q \<noteq> [] then
                prev\<lparr>webSearchQueries :=
                  webSearchQueries prev @
                    [\<lparr>wq_query = q, wq_timestamp = now, wq_results = None\<rparr>]\<rparr>
              else prev)
         | None \<Rightarrow> prev)
      else if m_type d = ''response_start'' then
        prev\<lparr>streamingText := []\<rparr>
      else if m_type d = ''response_chunk'' then
        prev\<lparr>streamingText := str_or (m_chunk d) [],
             progress := num_or (m_progress d) (progress prev)\<rparr>
      else if m_type d = ''fact_check_result'' then
        prev\<lparr>factCheckStatus := str_or (m_status d) []\<rparr>
      else if m_type d = ''completion'' then
        prev\<lparr>isStreaming := False, progress := 100,
             reasoningSteps := array_map mark_completed (reasoningSteps prev)\<rparr>
      else if m_type d = ''error'' then
        prev\<lparr>error := Some (str_or (m_message d) ''An error occurred''), isStreaming := False\<rparr>
      else prev)"

text \<open>
  The handler itself: \<open>JSON.parse(event.data)\<close> may throw (\<open>None\<close>), and this variant
  only logs that, so the state is not touched. A payload that parses is taken to be an
  object of the declared interface \<open>StreamingMessage\<close>; a payload without a \<open>type\<close>
  behaves like one whose type no \<open>case\<close> names.
\<close>

definition onmessage :: "StreamingState \<Rightarrow> int \<times> StreamingMessage option \<Rightarrow> StreamingState" where
  "onmessage prev ev =
     (case snd ev of None \<Rightarrow> prev | Some d \<Rightarrow> onmessage_fold (fst ev) prev d)"

section \<open>The extended hook (src/unnamed/part_012)\<close>

text \<open>
  The second variant of the hook has the same name and shape; its message and its state
  carry more fields, its switch has two more cases (\<open>ai_step\<close>, \<open>fact_check_step\<close>),
  and a payload that does not parse is turned into an error state.
\<close>

record FactCheckStep =
  fc_step :: string
  fc_status :: string
  fc_completed :: "bool option"

record StreamingMessageX = StreamingMessage +
  m_confidence :: "real option"
  m_validation_status :: "string option"
  m_language :: "string option"
  m_sources_used :: "string list option"
  m_fact_checker_used :: "bool option"

record StreamingStateX = StreamingState +
  factCheckSteps :: "FactCheckStep list"
  factCheckCorrections :: string
  confidence :: real
  validationStatus :: string
  language :: string
  sourcesUsed :: "string list"
  factCheckerUsed :: bool

definition resetStateX :: StreamingStateX where
  "resetStateX =
     \<lparr>isStreaming = True, progress = 0, currentPhase = [], phaseTitle = [], sources = [],
      reasoningSteps = [], webSearchQueries = [], streamingText = [], factCheckStatus = [],
      error = None, factCheckSteps = [], factCheckCorrections = [], confidence = 0,
      validationStatus = [], language = [], sourcesUsed = [], factCheckerUsed = False\<rparr>"

definition onmessage_fold_ext ::
  "int \<Rightarrow> StreamingStateX \<Rightarrow> StreamingMessageX \<Rightarrow> StreamingStateX" where
  "onmessage_fold_ext now prev d =
     (if m_type d = ''status'' then
        prev\<lparr>progress := num_or (m_progress d) 0\<rparr>
      else if m_type d = ''phase'' then
        prev\<lparr>currentPhase := str_or (m_phase d) [], phaseTitle := str_or (m_title d) []\<rparr>
      else if m_type d = ''phase_complete'' then
        prev\<lparr>progress := num_or (m_progress d) (progress prev)\<rparr>
      else if m_type d = ''sources_found'' then
        prev\<lparr>sources := arr_or (m_sources d) [],
             progress := num_or (m_progress d) (progress prev)\<rparr>
      else if m_type d = ''ai_step'' then
        prev\<lparr>phaseTitle := str_or (m_step d) (phaseTitle prev)\<rparr>
      else if m_type d = ''reasoning_step'' then
        (case m_index d of
           Some i \<Rightarrow>
             (if truthy_str (m_step d) then
                prev\<lparr>reasoningSteps :=
                  array_set (spread (reasoningSteps prev)) i
                    \<lparr>step = m_step d, index = Some i, completed = Some False\<rparr>\<rparr>
              else prev)
         | None \<Rightarrow> prev)
      else if m_type d = ''fact_check_step'' then
        (case (m_step d, m_status d) of
           (Some s, Some t) \<Rightarrow>
             (if s \<noteq> [] \<and> t \<noteq> [] then
                prev\<lparr>factCheckSteps :=
                  factCheckSteps prev @
                    [\<lparr>fc_step = s, fc_status = t, fc_completed = Some (t = ''completed'')\<rparr>]\<rparr>
              else prev)
         | _ \<Rightarrow> prev)
      else if m_type d = ''web_search_query'' then
        (case m_query d of
           Some q \<Rightarrow>
             (if q \<noteq> [] then
                prev\<lparr>webSearchQueries :=
                  webSearchQueries prev @
                    [\<lparr>wq_query = q, wq_timestamp = now, wq_results = None\<rparr>]\<rparr>
              else prev)
         | None \<Rightarrow> prev)
      else if m_type d = ''response_start'' then
        prev\<lparr>streamingText := []\<rparr>
      else if m_type d = ''response_chunk'' then
        prev\<lparr>streamingText := str_or (m_chunk d) [],
             progress := num_or (m_progress d) (progress prev)\<rparr>
      else if m_type d = ''fact_check_result'' then
        prev\<lparr>factCheckStatus := str_or (m_status d) [],
             confidence := num_or (m_confidence d) 0\<rparr>
      else if m_type d = ''completion'' then
        prev\<lparr>isStreaming := False, progress := 100,
             confidence := num_or (m_confidence d) (confidence prev),
             validationStatus := str_or (m_validation_status d) [],
             language := str_or (m_language d) [],
             sourcesUsed := arr_or (m_sources_used d) [],
             factCheckerUsed := bool_or (m_fact_checker_used d) False,
             reasoningSteps := array_map mark_completed (reasoningSteps prev),
             factCheckSteps := map (\<lambda>s. s\<lparr>fc_completed := Some True\<rparr>) (factCheckSteps prev)\<rparr>
      else if m_type d = ''error'' then
        prev\<lparr>error := Some (str_or (m_message d) ''An error occurred''), isStreaming := False\<rparr>
      else prev)"

definition onmessage_ext ::
  "StreamingStateX \<Rightarrow> int \<times> StreamingMessageX option \<Rightarrow> StreamingStateX" where
  "onmessage_ext prev ev =
     (case snd ev of
        None \<Rightarrow> prev\<lparr>error := Some ''Failed to parse response data'', isStreaming := False\<rparr>
      | Some d \<Rightarrow> onmessage_fold_ext (fst ev) prev d)"

section \<open>The hook instance: view model, transport reference, transports\<close>

text \<open>
  \<open>eventSources\<close> lists every \<open>EventSource\<close> constructed so far, by number, with
  \<open>True\<close> while it has not been closed; \<open>eventSourceRef\<close> is \<open>eventSourceRef.current\<close>.
  The arguments \<open>sessionId\<close>, \<open>content\<close> and \<open>token\<close> of \<open>startStreaming\<close> only build
  the URL and are left out; \<open>ctor_throws\<close> says that \<open>new EventSource\<close> threw, which
  takes the call to its \<open>catch\<close>.
\<close>

record Hook =
  streamingState :: StreamingState
  eventSourceRef :: "nat option"
  eventSources :: "bool list"

definition startStreaming :: "bool \<Rightarrow> Hook \<Rightarrow> Hook" where
  "startStreaming ctor_throws h =
     (if ctor_throws then
        h\<lparr>streamingState :=
            resetState\<lparr>error := Some ''Failed to start streaming'', isStreaming := False\<rparr>\<rparr>
      else
        h\<lparr>streamingState := resetState,
          eventSources := eventSources h @ [True],
          eventSourceRef := Some (length (eventSources h))\<rparr>)"

text \<open>An event source that is still open hands a message to its \<open>onmessage\<close> handler.\<close>

definition es_message :: "nat \<Rightarrow> int \<times> StreamingMessage option \<Rightarrow> Hook \<Rightarrow> Hook" where
  "es_message k ev h =
     (if k < length (eventSources h) \<and> eventSources h ! k then
        h\<lparr>streamingState := onmessage (streamingState h) ev\<rparr>
      else h)"

definition es_error :: "nat \<Rightarrow> Hook \<Rightarrow> Hook" where
  "es_error k h =
     (if k < length (eventSources h) \<and> eventSources h ! k then
        h\<lparr>streamingState :=
            (streamingState h)\<lparr>error := Some ''Connection error occurred'', isStreaming := False\<rparr>,
          eventSources := (eventSources h)[k := False]\<rparr>
      else h)"

definition stopStreaming :: "Hook \<Rightarrow> Hook" where
  "stopStreaming h =
     (let h' = (case eventSourceRef h of
                  Some k \<Rightarrow> h\<lparr>eventSources := (eventSources h)[k := False], eventSourceRef := None\<rparr>
                | None \<Rightarrow> h)
      in h'\<lparr>streamingState := (streamingState h')\<lparr>isStreaming := False\<rparr>\<rparr>)"

section \<open>The hook without push transport (second hook of frontend/src/components/StreamingText.tsx)\<close>

text \<open>
  This \<open>useStreamingChat\<close> sends one request and replays the answer word by word. Its
  state has its own shape, so its fields carry the prefix \<open>fb_\<close>.
\<close>

record FbSource =
  fs_title :: string
  fs_url :: string
  fs_snippet :: string
  fs_confidence :: real

datatype step_status = Processing | Complete

record FbStep =
  fb_step :: string
  fb_detail :: string
  fb_status :: step_status

record FbState =
  fb_isStreaming :: bool
  fb_progress :: real
  fb_currentPhase :: string
  fb_phaseTitle :: string
  fb_streamingText :: string
  fb_factCheckStatus :: string
  fb_error :: "string option"
  fb_confidence :: real
  fb_validationStatus :: string
  fb_sources :: "FbSource list"
  fb_reasoningSteps :: "FbStep list"

text \<open>The fields of the API's \<open>ChatMessage\<close> that the clients read.\<close>

record ChatMessage =
  cm_id :: string
  cm_session_id :: string
  cm_role :: string
  cm_content :: string
  cm_confidence_score :: "real option"
  cm_fact_check_status :: "string option"

text \<open>What a rejected promise carries: an \<open>Error\<close> with its message, or anything else.\<close>

datatype thrown = ErrorObj string | OtherThrown

text \<open>\<open>s.split(' ')\<close>: the pieces between single spaces, empty pieces included.\<close>

fun split_sp :: "string \<Rightarrow> string list" where
  "split_sp [] = [[]]"
| "split_sp (c # cs) =
     (if c = CHR '' '' then [] # split_sp cs
      else (case split_sp cs of w # ws \<Rightarrow> (c # w) # ws | [] \<Rightarrow> [[c]]))"

text \<open>
  The \<open>for\<close> loop of the replay, from index \<open>i\<close> with the text built so far: each round
  appends a word and sets the state; the result lists the states it sets, in order.
\<close>

function replay :: "string list \<Rightarrow> nat \<Rightarrow> string \<Rightarrow> FbState \<Rightarrow> FbState list" where
  "replay words i currentText st =
     (if i < length words then
        (let ct = currentText @ (if 0 < i then '' '' else []) @ words ! i;
             st' = st\<lparr>fb_streamingText := ct,
                      fb_progress := 75 + (real (i + 1) / real (length words)) * 20\<rparr>
         in st' # replay words (i + 1) ct st')
      else [])"
  by pat_completeness auto
termination
  by (relation "measure (\<lambda>(words, i, currentText, st). length words - i)") auto

declare replay.simps [simp del]

definition fb_reset :: FbState where
  "fb_reset =
     \<lparr>fb_isStreaming = True, fb_progress = 5, fb_currentPhase = ''initializing'',
      fb_phaseTitle = ''Initializing AI system...'', fb_streamingText = [],
      fb_factCheckStatus = [], fb_error = None, fb_confidence = 0, fb_validationStatus = [],
      fb_sources = [], fb_reasoningSteps = []\<rparr>"

definition fb_catch :: "thrown \<Rightarrow> FbState \<Rightarrow> FbState" where
  "fb_catch e prev =
     prev\<lparr>fb_error := Some (case e of ErrorObj m \<Rightarrow> m
                                | OtherThrown \<Rightarrow> ''Failed to process your request''),
          fb_isStreaming := False, fb_progress := 0, fb_streamingText := []\<rparr>"

text \<open>The updater of the completing \<open>setStreamingState\<close> call.\<close>

definition fb_complete :: "ChatMessage \<Rightarrow> FbState \<Rightarrow> FbState" where
  "fb_complete aiMessage prev =
     prev\<lparr>fb_progress := 100, fb_phaseTitle := ''Complete!'',
          fb_confidence := num_or (cm_confidence_score aiMessage) (9 / 10),
          fb_validationStatus := str_or (cm_fact_check_status aiMessage) ''approved''\<rparr>"

text \<open>
  \<open>startStreaming\<close> of this hook, as the list of the states it sets one after the other.
  \<open>token\<close> is what \<open>localStorage.getItem('auth_token')\<close> returns, \<open>resp\<close> how
  \<open>apiService.sendMessage\<close> settles.
\<close>

definition fb_startStreaming :: "string option \<Rightarrow> thrown + ChatMessage list \<Rightarrow> FbState list" where
  "fb_startStreaming token resp =
     (let s0 = fb_reset in
      if \<not> truthy_str token then
        [s0, fb_catch (ErrorObj ''No authentication token found'') s0]
      else
        (let s1 = s0\<lparr>fb_progress := 15, fb_phaseTitle := ''Connecting to agricultural AI...''\<rparr>;
             s2 = s1\<lparr>fb_progress := 30, fb_phaseTitle := ''Analyzing your query...''\<rparr>;
             s3 = s2\<lparr>fb_progress := 45, fb_phaseTitle := ''Searching knowledge base...''\<rparr>;
             s4 = s3\<lparr>fb_progress := 60, fb_phaseTitle := ''Generating response...''\<rparr>;
             pre = [s0, s1, s2, s3, s4]
         in case resp of
              Inl e \<Rightarrow> pre @ [fb_catch e s4]
            | Inr response \<Rightarrow>
                (if response = [] then
                   pre @ [fb_catch (ErrorObj ''Empty response received'') s4]
                 else
                   (case find (\<lambda>msg. cm_role msg = ''assistant'') response of
                      None \<Rightarrow> pre @ [fb_catch (ErrorObj ''No AI response found'') s4]
                    | Some aiMessage \<Rightarrow>
                        (let s5 = s4\<lparr>fb_progress := 75,
                                      fb_phaseTitle := ''Delivering response...'',
                                      fb_currentPhase := ''response''\<rparr>;
                             states = replay (split_sp (cm_content aiMessage)) 0 [] s5;
                             s6 = last (s5 # states);
                             s7 = fb_complete aiMessage s6;
                             s8 = s7\<lparr>fb_isStreaming := False\<rparr>
                         in pre @ [s5] @ states @ [s7, s8])))))"

section \<open>The chat screen's sendMessage (src/unnamed/part_014)\<close>

datatype role = User | Assistant

record Message =
  msg_id :: string
  msg_role :: role
  msg_content :: string
  msg_timestamp :: int

text \<open>\<open>Date.now().toString()\<close>: the decimal numeral of a millisecond count.\<close>

fun digits :: "nat \<Rightarrow> string" where
  "digits n =
     (if n < 10 then [''0123456789'' ! n]
      else digits (n div 10) @ [''0123456789'' ! (n mod 10)])"

declare digits.simps [simp del]

definition toString :: "int \<Rightarrow> string" where
  "toString n = (if n < 0 then CHR ''-'' # digits (nat (- n)) else digits (nat n))"

text \<open>
  \<open>!s.trim()\<close>: nothing but white space. Only the six ASCII white space characters
  are modelled; the further ones that \<open>trim\<close> strips (U+00A0, U+FEFF, U+2003 and the
  like) are outside the one-byte characters of \<open>string\<close>.
\<close>

definition is_ws :: "char \<Rightarrow> bool" where
  "is_ws c \<longleftrightarrow> c \<in> set [CHR '' '', CHR 0x09, CHR 0x0A, CHR 0x0B, CHR 0x0C, CHR 0x0D]"

definition trim_empty :: "string \<Rightarrow> bool" where
  "trim_empty s \<longleftrightarrow> list_all is_ws s"

text \<open>
  The component state that \<open>sendMessage\<close> reads and writes. The thinking animation only
  drives \<open>thinkingPhase\<close> and \<open>thinkingProgress\<close>, which are display values and left out.
\<close>

record ChatInterface =
  messages :: "Message list"
  currentMessage :: string
  sessionId :: "string option"
  isAuthenticated :: bool
  isThinking :: bool

text \<open>
  Every clock reading of one call: the user message's id and timestamp, the same for the
  assistant message, \<open>Date.now()\<close> at the start of the \<open>catch\<close>, and the error
  message's id and timestamp.
\<close>

record Clock =
  t_user_id :: int
  t_user_ts :: int
  t_asst_id :: int
  t_asst_ts :: int
  t_catch :: int
  t_err_id :: int
  t_err_ts :: int

text \<open>The \<open>catch\<close> block; \<open>typed\<close> is the input text the call started with.\<close>

definition sendMessage_catch :: "Clock \<Rightarrow> string \<Rightarrow> thrown \<Rightarrow> ChatInterface \<Rightarrow> ChatInterface" where
  "sendMessage_catch clk typed e st =
     (let currentTime = t_catch clk;
          kept = filter (\<lambda>msg. \<not> (msg_role msg = User \<and>
                                   \<bar>msg_timestamp msg - currentTime\<bar> < 1000)) (messages st);
          errorMessage =
            \<lparr>msg_id = toString (t_err_id clk), msg_role = Assistant,
             msg_content = ''**Error**: '' @
               (case e of ErrorObj m \<Rightarrow> m
                | OtherThrown \<Rightarrow> ''Failed to send message. Please try again.''),
             msg_timestamp = t_err_ts clk\<rparr>
      in st\<lparr>isThinking := False, messages := kept @ [errorMessage], currentMessage := typed\<rparr>)"

text \<open>
  \<open>sendMessage\<close>: \<open>created\<close> is how \<open>apiService.createChatSession\<close> settles (read only
  when no session is selected), \<open>resp\<close> how \<open>apiService.sendMessage\<close> settles.
\<close>

definition sendMessage ::
  "Clock \<Rightarrow> thrown + string \<Rightarrow> thrown + ChatMessage list \<Rightarrow> ChatInterface \<Rightarrow> ChatInterface" where
  "sendMessage clk created resp st =
     (if trim_empty (currentMessage st) then st
      else if isThinking st then st
      else if \<not> isAuthenticated st then st
      else
        (let typed = currentMessage st;
             session = (case sessionId st of
                          Some sid \<Rightarrow> (if sid \<noteq> [] then Inr (st, sid) else
                            (case created of Inl e \<Rightarrow> Inl e
                             | Inr sid' \<Rightarrow> Inr (st\<lparr>sessionId := Some sid'\<rparr>, sid')))
                        | None \<Rightarrow>
                            (case created of Inl e \<Rightarrow> Inl e
                             | Inr sid' \<Rightarrow> Inr (st\<lparr>sessionId := Some sid'\<rparr>, sid')))
         in case session of
              Inl e \<Rightarrow> sendMessage_catch clk typed e st
            | Inr (st1, sid) \<Rightarrow>
                (let userMessage =
                       \<lparr>msg_id = toString (t_user_id clk), msg_role = User,
                        msg_content = typed, msg_timestamp = t_user_ts clk\<rparr>;
                     st2 = st1\<lparr>messages := messages st1 @ [userMessage],
                               currentMessage := [], isThinking := True\<rparr>
                 in case resp of
                      Inl e \<Rightarrow> sendMessage_catch clk typed e st2
                    | Inr responseMessages \<Rightarrow>
                        (case find (\<lambda>msg. cm_role msg = ''assistant'') responseMessages of
                           Some assistantResponse \<Rightarrow>
                             st2\<lparr>messages := messages st2 @
                                   [\<lparr>msg_id = toString (t_asst_id clk), msg_role = Assistant,
                                     msg_content = cm_content assistantResponse,
                                     msg_timestamp = t_asst_ts clk\<rparr>],
                                 isThinking := False\<rparr>
                         | None \<Rightarrow> st2\<lparr>isThinking := False\<rparr>))))"

section \<open>Event sequences\<close>

definition run :: "StreamingState \<Rightarrow> (int \<times> StreamingMessage option) list \<Rightarrow> StreamingState" where
  "run st evs = foldl onmessage st evs"

definition run_ext :: "StreamingStateX \<Rightarrow> (int \<times> StreamingMessageX option) list \<Rightarrow> StreamingStateX" where
  "run_ext st evs = foldl onmessage_ext st evs"

text \<open>A message of the given type with every optional field absent.\<close>

definition msg :: "string \<Rightarrow> StreamingMessage" where
  "msg t =
     \<lparr>m_type = t, m_message = None, m_progress = None, m_phase = None, m_title = None,
      m_status = None, m_result = None, m_sources = None, m_step = None, m_index = None,
      m_chunk = None, m_query = None, m_response_id = None\<rparr>"

definition msgX :: "string \<Rightarrow> StreamingMessageX" where
  "msgX t =
     \<lparr>m_type = t, m_message = None, m_progress = None, m_phase = None, m_title = None,
      m_status = None, m_result = None, m_sources = None, m_step = None, m_index = None,
      m_chunk = None, m_query = None, m_response_id = None, m_confidence = None,
      m_validation_status = None, m_language = None, m_sources_used = None,
      m_fact_checker_used = None\<rparr>"

text \<open>
  The \<open>case\<close> labels of the two switches, in the order of the source: eleven in the
  first variant, and \<open>ai_step\<close> and \<open>fact_check_step\<close> besides in the extended one.
\<close>

definition recognized :: "string list" where
  "recognized =
     [''status'', ''phase'', ''phase_complete'', ''sources_found'', ''reasoning_step'',
      ''web_search_query'', ''response_start'', ''response_chunk'', ''fact_check_result'',
      ''completion'', ''error'']"

definition recognized_ext :: "string list" where
  "recognized_ext =
     [''status'', ''phase'', ''phase_complete'', ''sources_found'', ''ai_step'',
      ''reasoning_step'', ''fact_check_step'', ''web_search_query'', ''response_start'',
      ''response_chunk'', ''fact_check_result'', ''completion'', ''error'']"

text \<open>A \<open>reasoning_step\<close> message with its text and index.\<close>

definition step_ev :: "string \<Rightarrow> real \<Rightarrow> StreamingMessage" where
  "step_ev s i = (msg ''reasoning_step'')\<lparr>m_step := Some s, m_index := Some i\<rparr>"

definition step_evX :: "string \<Rightarrow> real \<Rightarrow> StreamingMessageX" where
  "step_evX s i = (msgX ''reasoning_step'')\<lparr>m_step := Some s, m_index := Some i\<rparr>"

text \<open>
  Every entry that is present in the list is an object with \<open>completed = true\<close>: a
  position is either a hole (no entry) or such an object.
\<close>

definition all_completed :: "ReasoningStep slot list \<Rightarrow> bool" where
  "all_completed xs \<longleftrightarrow>
     (\<forall>s \<in> set xs. case s of Hole \<Rightarrow> True | Undefined \<Rightarrow> False
                       | Elem r \<Rightarrow> completed r = Some True)"

text \<open>A \<open>status\<close> message carrying a progress value.\<close>

definition status_ev :: "real \<Rightarrow> StreamingMessage" where
  "status_ev p = (msg ''status'')\<lparr>m_progress := Some p\<rparr>"

definition in_range :: "real \<Rightarrow> bool" where
  "in_range p \<longleftrightarrow> 0 \<le> p \<and> p \<le> 100"

text \<open>The progress value that a delivered event carries, if it carries one, is in range.\<close>

definition carries_in_range :: "int \<times> StreamingMessage option \<Rightarrow> bool" where
  "carries_in_range ev \<longleftrightarrow>
     (case snd ev of None \<Rightarrow> True
      | Some d \<Rightarrow> (case m_progress d of None \<Rightarrow> True | Some p \<Rightarrow> in_range p))"

text \<open>The cases of the switch that assign \<open>newState.progress\<close>.\<close>

definition progress_types :: "string list" where
  "progress_types =
     [''status'', ''phase_complete'', ''sources_found'', ''response_chunk'', ''completion'']"

text \<open>
  The hook as \<open>useState\<close> and \<open>useRef\<close> create it; the hook after \<open>startStreaming\<close>
  and a \<open>status\<close> event with progress 50; and that hook after a first chunk of text.
\<close>

definition initialHook :: Hook where
  "initialHook = \<lparr>streamingState = initialState, eventSourceRef = None, eventSources = []\<rparr>"

definition liveHook :: Hook where
  "liveHook = es_message 0 (1, Some (status_ev 50)) (startStreaming False initialHook)"

definition partialHook :: Hook where
  "partialHook =
     es_message 0 (2, Some ((msg ''response_chunk'')\<lparr>m_chunk := Some ''Plant rice''\<rparr>)) liveHook"


text \<open>\<open>words.join(' ')\<close>, which is what the replay loop builds up in \<open>currentText\<close>.\<close>

fun join_sp :: "string list \<Rightarrow> string" where
  "join_sp [] = []"
| "join_sp [w] = w"
| "join_sp (w # v # ws) = w @ '' '' @ join_sp (v # ws)"

text \<open>The state in which the replay of the text \<open>t\<close> ends.\<close>

definition fb_replayed :: "string \<Rightarrow> FbState" where
  "fb_replayed t =
     \<lparr>fb_isStreaming = True, fb_progress = 95, fb_currentPhase = ''response'',
      fb_phaseTitle = ''Delivering response...'', fb_streamingText = t,
      fb_factCheckStatus = [], fb_error = None, fb_confidence = 0, fb_validationStatus = [],
      fb_sources = [], fb_reasoningSteps = []\<rparr>"

text \<open>A message of the API with the given role and content.\<close>

definition chat_message :: "string \<Rightarrow> string \<Rightarrow> ChatMessage" where
  "chat_message r c =
     \<lparr>cm_id = ''m'', cm_session_id = ''s'', cm_role = r, cm_content = c,
      cm_confidence_score = None, cm_fact_check_status = None\<rparr>"

text \<open>
  A chat screen that is logged in, has a session and a typed question; and the clock
  readings of a request that fails five seconds after the user message was made.
\<close>

definition readyChat :: ChatInterface where
  "readyChat =
     \<lparr>messages = [], currentMessage = ''When to plant rice?'', sessionId = Some ''s1'',
      isAuthenticated = True, isThinking = False\<rparr>"

definition slowClock :: Clock where
  "slowClock =
     \<lparr>t_user_id = 1000, t_user_ts = 1000, t_asst_id = 0, t_asst_ts = 0,
      t_catch = 6000, t_err_id = 6000, t_err_ts = 6000\<rparr>"

section \<open>Replacing the text on a chunk\<close>

lemma response_chunk_basic:
  "m_type d = ''response_chunk'' \<Longrightarrow>
     streamingText (onmessage_fold now prev d) = (case m_chunk d of None \<Rightarrow> [] | Some c \<Rightarrow> c)"
  by (simp add: onmessage_fold_def str_or_def split: option.split)

lemma response_chunk_ext:
  "m_type d = ''response_chunk'' \<Longrightarrow>
     streamingText (onmessage_fold_ext now prev d) = (case m_chunk d of None \<Rightarrow> [] | Some c \<Rightarrow> c)"
  by (simp add: onmessage_fold_ext_def str_or_def split: option.split)

text \<open>
  C5. Folding a \<open>response_chunk\<close> event replaces \<open>streamingText\<close> by the event's chunk,
  and by the empty string when the chunk is absent, whatever the text was before: nothing
  is appended. This holds for the handler of either variant of the hook.
\<close>

theorem response_chunk_replaces:
  "(m_type d = ''response_chunk'' \<longrightarrow>
      streamingText (onmessage prev (now, Some d)) = (case m_chunk d of None \<Rightarrow> [] | Some c \<Rightarrow> c)) \<and>
   (m_type dx = ''response_chunk'' \<longrightarrow>
      streamingText (onmessage_ext prevx (nowx, Some dx)) =
        (case m_chunk dx of None \<Rightarrow> [] | Some c \<Rightarrow> c))"
  by (simp add: onmessage_def onmessage_ext_def response_chunk_basic response_chunk_ext)

theorem response_chunk_replaces_witness:
  "m_type ((msg ''response_chunk'')\<lparr>m_chunk := Some ''Plant rice''\<rparr>) = ''response_chunk'' \<and>
   streamingText (onmessage (resetState\<lparr>streamingText := ''Plant''\<rparr>)
      (0, Some ((msg ''response_chunk'')\<lparr>m_chunk := Some ''Plant rice''\<rparr>))) = ''Plant rice'' \<and>
   m_type (msgX ''response_chunk'') = ''response_chunk'' \<and>
   streamingText (onmessage_ext (resetStateX\<lparr>streamingText := ''Plant''\<rparr>)
      (0, Some (msgX ''response_chunk''))) = []"
  using response_chunk_replaces
    [of "(msg ''response_chunk'')\<lparr>m_chunk := Some ''Plant rice''\<rparr>"
        "resetState\<lparr>streamingText := ''Plant''\<rparr>" 0
        "msgX ''response_chunk''" "resetStateX\<lparr>streamingText := ''Plant''\<rparr>" 0]
  by (simp add: msg_def msgX_def)

section \<open>Events of a type the switch does not name\<close>

lemma unknown_basic: "m_type d \<notin> set recognized \<Longrightarrow> onmessage_fold now prev d = prev"
  by (simp add: recognized_def onmessage_fold_def)

lemma unknown_ext: "m_type d \<notin> set recognized_ext \<Longrightarrow> onmessage_fold_ext now prev d = prev"
  by (simp add: recognized_ext_def onmessage_fold_ext_def)

text \<open>
  C10 as stated fails on the extended variant: \<open>ai_step\<close> is none of the eleven types the
  claim lists, and folding it sets \<open>phaseTitle\<close>.
\<close>

theorem unknown_type_counterexample:
  "m_type ((msgX ''ai_step'')\<lparr>m_step := Some ''Thinking''\<rparr>) \<notin> set recognized \<and>
   onmessage_fold_ext 0 resetStateX ((msgX ''ai_step'')\<lparr>m_step := Some ''Thinking''\<rparr>) \<noteq> resetStateX"
  by (simp add: msgX_def recognized_def onmessage_fold_ext_def resetStateX_def str_or_def)

text \<open>
  C10, amended. An event whose type is none of the \<open>case\<close> labels of the switch that folds
  it is a silent no-op: the handler returns the previous state with every field unchanged.
  The labels are the eleven types of the claim in the first variant of the hook, and those
  eleven together with \<open>ai_step\<close> and \<open>fact_check_step\<close> in the extended variant. The fold
  is a total function, so it does not throw.
\<close>

theorem unknown_type_is_noop:
  "(m_type d \<notin> set recognized \<longrightarrow> onmessage prev (now, Some d) = prev) \<and>
   (m_type dx \<notin> set recognized_ext \<longrightarrow> onmessage_ext prevx (nowx, Some dx) = prevx)"
  by (simp add: onmessage_def onmessage_ext_def unknown_basic unknown_ext)

theorem unknown_type_is_noop_witness:
  "m_type ((msg ''heartbeat'')\<lparr>m_progress := Some 7\<rparr>) \<notin> set recognized \<and>
   onmessage (resetState\<lparr>progress := 40\<rparr>) (0, Some ((msg ''heartbeat'')\<lparr>m_progress := Some 7\<rparr>))
     = resetState\<lparr>progress := 40\<rparr> \<and>
   m_type ((msgX ''heartbeat'')\<lparr>m_progress := Some 7\<rparr>) \<notin> set recognized_ext \<and>
   onmessage_ext (resetStateX\<lparr>progress := 40\<rparr>)
      (0, Some ((msgX ''heartbeat'')\<lparr>m_progress := Some 7\<rparr>)) = resetStateX\<lparr>progress := 40\<rparr>"
  using unknown_type_is_noop
    [of "(msg ''heartbeat'')\<lparr>m_progress := Some 7\<rparr>" "resetState\<lparr>progress := 40\<rparr>" 0
        "(msgX ''heartbeat'')\<lparr>m_progress := Some 7\<rparr>" "resetStateX\<lparr>progress := 40\<rparr>" 0]
  by (simp add: msg_def msgX_def recognized_def recognized_ext_def)

section \<open>The completion event\<close>

lemma run_snoc: "run st (evs @ [ev]) = onmessage (run st evs) ev"
  by (simp add: run_def)

lemma run_ext_snoc: "run_ext st (evs @ [ev]) = onmessage_ext (run_ext st evs) ev"
  by (simp add: run_ext_def)

lemma is_array_index_0: "is_array_index 0"
  by (simp add: is_array_index_def)

lemma is_array_index_2: "is_array_index 2"
  by (simp add: is_array_index_def)

lemma all_completed_map: "all_completed (array_map mark_completed xs)"
  by (auto simp: all_completed_def array_map_def mark_completed_def split: slot.splits option.splits)

lemma completion_basic:
  "m_type d = ''completion'' \<Longrightarrow>
     \<not> isStreaming (onmessage_fold now prev d) \<and> progress (onmessage_fold now prev d) = 100 \<and>
     all_completed (reasoningSteps (onmessage_fold now prev d))"
  by (simp add: onmessage_fold_def all_completed_map)

lemma completion_ext:
  "m_type d = ''completion'' \<Longrightarrow>
     \<not> isStreaming (onmessage_fold_ext now prev d) \<and> progress (onmessage_fold_ext now prev d) = 100 \<and>
     all_completed (reasoningSteps (onmessage_fold_ext now prev d))"
  by (simp add: onmessage_fold_ext_def all_completed_map)

text \<open>
  C2. Whatever the starting state and whatever events were folded before, once a sequence
  ends with a \<open>completion\<close> event the state has \<open>isStreaming = false\<close>,
  \<open>progress = 100\<close>, and every entry present in \<open>reasoningSteps\<close> has
  \<open>completed = true\<close>; this holds for the handler of either variant of the hook.
\<close>

theorem completion_ends_stream:
  "(m_type d = ''completion'' \<longrightarrow>
      \<not> isStreaming (run st (evs @ [(now, Some d)])) \<and>
      progress (run st (evs @ [(now, Some d)])) = 100 \<and>
      all_completed (reasoningSteps (run st (evs @ [(now, Some d)])))) \<and>
   (m_type dx = ''completion'' \<longrightarrow>
      \<not> isStreaming (run_ext stx (evsx @ [(nowx, Some dx)])) \<and>
      progress (run_ext stx (evsx @ [(nowx, Some dx)])) = 100 \<and>
      all_completed (reasoningSteps (run_ext stx (evsx @ [(nowx, Some dx)]))))"
  by (simp add: run_snoc run_ext_snoc onmessage_def onmessage_ext_def completion_basic completion_ext)

theorem completion_ends_stream_witness:
  "m_type (msg ''completion'') = ''completion'' \<and>
   run resetState [(0, Some (step_ev ''c'' 2)), (1, Some (step_ev ''a'' 0)), (2, Some (msg ''completion''))]
     = resetState\<lparr>isStreaming := False, progress := 100,
         reasoningSteps :=
           [Elem \<lparr>step = Some ''a'', index = Some 0, completed = Some True\<rparr>,
            Elem \<lparr>step = None, index = None, completed = Some True\<rparr>,
            Elem \<lparr>step = Some ''c'', index = Some 2, completed = Some True\<rparr>]\<rparr> \<and>
   all_completed (reasoningSteps (run resetState
     [(0, Some (step_ev ''c'' 2)), (1, Some (step_ev ''a'' 0)), (2, Some (msg ''completion''))])) \<and>
   m_type (msgX ''completion'') = ''completion'' \<and>
   all_completed (reasoningSteps (run_ext resetStateX
     [(0, Some (step_evX ''c'' 2)), (2, Some (msgX ''completion''))])) \<and>
   reasoningSteps (run_ext resetStateX
     [(0, Some (step_evX ''c'' 2)), (2, Some (msgX ''completion''))]) =
     [Hole, Hole, Elem \<lparr>step = Some ''c'', index = Some 2, completed = Some True\<rparr>]"
  using completion_ends_stream
    [of "msg ''completion''" resetState "[(0, Some (step_ev ''c'' 2)), (1, Some (step_ev ''a'' 0))]" 2
        "msgX ''completion''" resetStateX "[(0, Some (step_evX ''c'' 2))]" 2]
  by (simp add: run_def run_ext_def onmessage_def onmessage_ext_def step_ev_def step_evX_def
     msg_def msgX_def onmessage_fold_def onmessage_fold_ext_def resetState_def resetStateX_def
     truthy_str_def array_set_def spread_def array_map_def mark_completed_def
     is_array_index_2 is_array_index_0 numeral_2_eq_2 all_completed_def)

section \<open>After an error event\<close>

lemma fold_keeps_stopped:
  "\<not> isStreaming prev \<Longrightarrow> \<not> isStreaming (onmessage_fold now prev d)"
  by (simp add: onmessage_fold_def split: option.split)

lemma fold_keeps_error:
  "error prev \<noteq> None \<Longrightarrow> error (onmessage_fold now prev d) \<noteq> None"
  by (simp add: onmessage_fold_def split: option.split)

lemma fold_ext_keeps_stopped:
  "\<not> isStreaming prev \<Longrightarrow> \<not> isStreaming (onmessage_fold_ext now prev d)"
  by (simp add: onmessage_fold_ext_def split: option.split prod.split)

lemma fold_ext_keeps_error:
  "error prev \<noteq> None \<Longrightarrow> error (onmessage_fold_ext now prev d) \<noteq> None"
  by (simp add: onmessage_fold_ext_def split: option.split prod.split)

lemma run_keeps_terminal:
  "\<not> isStreaming st \<and> error st \<noteq> None \<Longrightarrow>
     \<not> isStreaming (run st evs) \<and> error (run st evs) \<noteq> None"
proof (induction evs arbitrary: st)
  case Nil
  then show ?case by (simp add: run_def)
next
  case (Cons ev evs)
  have "\<not> isStreaming (onmessage st ev) \<and> error (onmessage st ev) \<noteq> None"
    using Cons.prems
    by (cases ev) (simp add: onmessage_def fold_keeps_stopped fold_keeps_error del: not_None_eq split: option.split)
  from Cons.IH [OF this] show ?case by (simp add: run_def)
qed

lemma run_ext_keeps_terminal:
  "\<not> isStreaming st \<and> error st \<noteq> None \<Longrightarrow>
     \<not> isStreaming (run_ext st evs) \<and> error (run_ext st evs) \<noteq> None"
proof (induction evs arbitrary: st)
  case Nil
  then show ?case by (simp add: run_ext_def)
next
  case (Cons ev evs)
  have "\<not> isStreaming (onmessage_ext st ev) \<and> error (onmessage_ext st ev) \<noteq> None"
    using Cons.prems
    by (cases ev)
       (simp add: onmessage_ext_def fold_ext_keeps_stopped fold_ext_keeps_error del: not_None_eq
          split: option.split)
  from Cons.IH [OF this] show ?case by (simp add: run_ext_def)
qed

lemma error_basic:
  "m_type d = ''error'' \<Longrightarrow>
     \<not> isStreaming (onmessage_fold now prev d) \<and> error (onmessage_fold now prev d) \<noteq> None"
  by (simp add: onmessage_fold_def)

lemma error_ext:
  "m_type d = ''error'' \<Longrightarrow>
     \<not> isStreaming (onmessage_fold_ext now prev d) \<and> error (onmessage_fold_ext now prev d) \<noteq> None"
  by (simp add: onmessage_fold_ext_def)

text \<open>
  C1 as stated fails: after an \<open>error\<close> event has been folded (error set, streaming
  off), folding a \<open>status\<close> event still changes the state, here \<open>progress\<close> from 0
  to 50.
\<close>

theorem error_fold_counterexample:
  "m_type ((msg ''error'')\<lparr>m_message := Some ''boom''\<rparr>) = ''error'' \<and>
   error (onmessage resetState (0, Some ((msg ''error'')\<lparr>m_message := Some ''boom''\<rparr>))) = Some ''boom'' \<and>
   \<not> isStreaming (onmessage resetState (0, Some ((msg ''error'')\<lparr>m_message := Some ''boom''\<rparr>))) \<and>
   run (onmessage resetState (0, Some ((msg ''error'')\<lparr>m_message := Some ''boom''\<rparr>)))
       [(1, Some ((msg ''status'')\<lparr>m_progress := Some 50\<rparr>))]
     \<noteq> onmessage resetState (0, Some ((msg ''error'')\<lparr>m_message := Some ''boom''\<rparr>)) \<and>
   progress (run (onmessage resetState (0, Some ((msg ''error'')\<lparr>m_message := Some ''boom''\<rparr>)))
       [(1, Some ((msg ''status'')\<lparr>m_progress := Some 50\<rparr>))]) = 50 \<and>
   progress (onmessage resetState (0, Some ((msg ''error'')\<lparr>m_message := Some ''boom''\<rparr>))) = 0"
  by (simp add: run_def onmessage_def onmessage_fold_def msg_def resetState_def str_or_def num_or_def)

text \<open>
  C1, amended. Once an \<open>error\<close> event has been folded, \<open>isStreaming\<close> is false and
  \<open>error\<close> is non-null, and both stay so whatever events are folded afterwards, in either
  variant of the hook: no case of the switch sets \<open>isStreaming\<close> to true or \<open>error\<close> to
  null.
\<close>

theorem error_stays_terminal:
  "(m_type d = ''error'' \<longrightarrow>
      \<not> isStreaming (run (onmessage st (now, Some d)) evs) \<and>
      error (run (onmessage st (now, Some d)) evs) \<noteq> None) \<and>
   (m_type dx = ''error'' \<longrightarrow>
      \<not> isStreaming (run_ext (onmessage_ext stx (nowx, Some dx)) evsx) \<and>
      error (run_ext (onmessage_ext stx (nowx, Some dx)) evsx) \<noteq> None)"
proof (intro conjI impI)
  assume d: "m_type d = ''error''"
  have "\<not> isStreaming (onmessage st (now, Some d)) \<and> error (onmessage st (now, Some d)) \<noteq> None"
    using error_basic [OF d] by (simp add: onmessage_def)
  from run_keeps_terminal [OF this]
  show "\<not> isStreaming (run (onmessage st (now, Some d)) evs)"
    and "error (run (onmessage st (now, Some d)) evs) \<noteq> None" by simp_all
next
  assume d: "m_type dx = ''error''"
  have "\<not> isStreaming (onmessage_ext stx (nowx, Some dx)) \<and>
        error (onmessage_ext stx (nowx, Some dx)) \<noteq> None"
    using error_ext [OF d] by (simp add: onmessage_ext_def)
  from run_ext_keeps_terminal [OF this]
  show "\<not> isStreaming (run_ext (onmessage_ext stx (nowx, Some dx)) evsx)"
    and "error (run_ext (onmessage_ext stx (nowx, Some dx)) evsx) \<noteq> None" by simp_all
qed

theorem error_stays_terminal_witness:
  "m_type ((msg ''error'')\<lparr>m_message := Some ''boom''\<rparr>) = ''error'' \<and>
   \<not> isStreaming (run (onmessage resetState (0, Some ((msg ''error'')\<lparr>m_message := Some ''boom''\<rparr>)))
       [(1, Some ((msg ''status'')\<lparr>m_progress := Some 50\<rparr>))]) \<and>
   error (run (onmessage resetState (0, Some ((msg ''error'')\<lparr>m_message := Some ''boom''\<rparr>)))
       [(1, Some ((msg ''status'')\<lparr>m_progress := Some 50\<rparr>))]) = Some ''boom'' \<and>
   m_type (msgX ''error'') = ''error'' \<and>
   \<not> isStreaming (run_ext (onmessage_ext resetStateX (0, Some (msgX ''error'')))
       [(1, Some ((msgX ''status'')\<lparr>m_progress := Some 50\<rparr>))]) \<and>
   error (run_ext (onmessage_ext resetStateX (0, Some (msgX ''error'')))
       [(1, Some ((msgX ''status'')\<lparr>m_progress := Some 50\<rparr>))]) = Some ''An error occurred''"
  using error_stays_terminal
    [of "(msg ''error'')\<lparr>m_message := Some ''boom''\<rparr>" resetState 0
        "[(1, Some ((msg ''status'')\<lparr>m_progress := Some 50\<rparr>))]"
        "msgX ''error''" resetStateX 0 "[(1, Some ((msgX ''status'')\<lparr>m_progress := Some 50\<rparr>))]"]
  by (simp add: run_def run_ext_def onmessage_def onmessage_ext_def onmessage_fold_def
      onmessage_fold_ext_def msg_def msgX_def resetState_def resetStateX_def str_or_def num_or_def)

section \<open>Progress\<close>

lemma num_or_in_range:
  "in_range b \<Longrightarrow> (case a of None \<Rightarrow> True | Some p \<Rightarrow> in_range p) \<Longrightarrow> in_range (num_or a b)"
  by (cases a) (simp_all add: num_or_def)

lemma in_range_0: "in_range 0" and in_range_100: "in_range 100"
  by (simp_all add: in_range_def)

lemma fold_progress_in_range:
  assumes "in_range (progress prev)"
    and "case m_progress d of None \<Rightarrow> True | Some p \<Rightarrow> in_range p"
  shows "in_range (progress (onmessage_fold now prev d))"
  using assms
  by (simp add: onmessage_fold_def num_or_in_range in_range_0 in_range_100 split: option.split)

lemma run_progress_in_range:
  "in_range (progress st) \<Longrightarrow> list_all carries_in_range evs \<Longrightarrow> in_range (progress (run st evs))"
proof (induction evs arbitrary: st)
  case Nil
  then show ?case by (simp add: run_def)
next
  case (Cons ev evs)
  have "in_range (progress (onmessage st ev))"
  proof (cases "snd ev")
    case None
    then show ?thesis using Cons.prems(1) by (simp add: onmessage_def)
  next
    case (Some d)
    with Cons.prems(2) have "case m_progress d of None \<Rightarrow> True | Some p \<Rightarrow> in_range p"
      by (simp add: carries_in_range_def)
    from fold_progress_in_range [OF Cons.prems(1) this] Some
    show ?thesis by (simp add: onmessage_def)
  qed
  moreover have "list_all carries_in_range evs" using Cons.prems(2) by simp
  ultimately have "in_range (progress (run (onmessage st ev) evs))" by (rule Cons.IH)
  then show ?case by (simp add: run_def)
qed

lemma fold_progress_status:
  "m_type d = ''status'' \<Longrightarrow>
     progress (onmessage_fold now prev d) = (case m_progress d of None \<Rightarrow> 0 | Some p \<Rightarrow> p)"
  by (simp add: onmessage_fold_def num_or_def split: option.split)

lemma fold_progress_optional:
  "m_type d \<in> set [''phase_complete'', ''sources_found'', ''response_chunk''] \<Longrightarrow>
     progress (onmessage_fold now prev d) =
       (case m_progress d of None \<Rightarrow> progress prev
        | Some p \<Rightarrow> (if p = 0 then progress prev else p))"
  by (auto simp add: onmessage_fold_def num_or_def split: option.split)

lemma fold_progress_completion:
  "m_type d = ''completion'' \<Longrightarrow> progress (onmessage_fold now prev d) = 100"
  by (simp add: onmessage_fold_def)

lemma fold_progress_not_lowered:
  assumes "progress prev \<le> 100"
    and "case m_progress d of None \<Rightarrow> True | Some p \<Rightarrow> p = 0 \<or> progress prev \<le> p"
    and "m_type d = ''status'' \<Longrightarrow>
           (case m_progress d of None \<Rightarrow> progress prev \<le> 0
            | Some p \<Rightarrow> p \<noteq> 0 \<or> progress prev \<le> 0)"
  shows "progress prev \<le> progress (onmessage_fold now prev d)"
  using assms
  by (auto simp add: onmessage_fold_def num_or_def split: option.splits)

lemma fold_progress_same:
  "m_type d \<notin> set progress_types \<Longrightarrow> progress (onmessage_fold now prev d) = progress prev"
  by (simp add: onmessage_fold_def progress_types_def split: option.split)

text \<open>
  C4 as stated fails: a \<open>status\<close> event sets \<open>progress\<close> to whatever it carries, so
  progress drops from 50 to 10, drops to 0 on a \<open>status\<close> event without a progress
  value, and leaves the range with a value of 150.
\<close>

theorem progress_counterexample:
  "progress (run resetState [(0, Some (status_ev 50))]) = 50 \<and>
   progress (run resetState [(0, Some (status_ev 50)), (1, Some (status_ev 10))]) = 10 \<and>
   progress (run resetState [(0, Some (status_ev 50)), (1, Some (msg ''status''))]) = 0 \<and>
   progress (run resetState [(0, Some (status_ev 150))]) = 150"
  by (simp add: run_def onmessage_def onmessage_fold_def status_ev_def msg_def resetState_def num_or_def)

text \<open>
  C4, amended. The fold copies \<open>progress\<close> from the events and neither clamps nor
  compares it. A \<open>status\<close> event sets it to the value the event carries, and to 0 when it
  carries none; \<open>phase_complete\<close>, \<open>sources_found\<close> and \<open>response_chunk\<close> set it to the
  value the event carries when that is present and not 0, and keep it otherwise;
  \<open>completion\<close> sets it to 100; every other event, and a payload that does not parse,
  leaves it as it is. Hence over a sequence of events \<open>progress\<close> stays within [0, 100]
  when it starts there and every progress value the events carry lies there; and one fold
  does not lower \<open>progress\<close> when it was at most 100, any non-zero value the event carries
  is at least the current one, and a \<open>status\<close> event carries a non-zero value unless the
  current progress is at most 0.
\<close>

theorem progress_follows_events:
  "(m_type d = ''status'' \<longrightarrow>
      progress (onmessage prev (now, Some d)) = (case m_progress d of None \<Rightarrow> 0 | Some p \<Rightarrow> p)) \<and>
   (m_type d \<in> set [''phase_complete'', ''sources_found'', ''response_chunk''] \<longrightarrow>
      progress (onmessage prev (now, Some d)) =
        (case m_progress d of None \<Rightarrow> progress prev
         | Some p \<Rightarrow> (if p = 0 then progress prev else p))) \<and>
   (m_type d = ''completion'' \<longrightarrow> progress (onmessage prev (now, Some d)) = 100) \<and>
   (m_type d \<notin> set progress_types \<longrightarrow> progress (onmessage prev (now, Some d)) = progress prev) \<and>
   progress (onmessage prev (now, None)) = progress prev \<and>
   (in_range (progress st) \<and> list_all carries_in_range evs \<longrightarrow> in_range (progress (run st evs))) \<and>
   (progress prev \<le> 100 \<and>
    (case m_progress d of None \<Rightarrow> True | Some p \<Rightarrow> p = 0 \<or> progress prev \<le> p) \<and>
    (m_type d = ''status'' \<longrightarrow>
       (case m_progress d of None \<Rightarrow> progress prev \<le> 0
        | Some p \<Rightarrow> p \<noteq> 0 \<or> progress prev \<le> 0)) \<longrightarrow>
      progress prev \<le> progress (onmessage prev (now, Some d)))"
proof -
  have a: "onmessage prev (now, Some d) = onmessage_fold now prev d"
    and b: "onmessage prev (now, None) = prev"
    by (simp_all add: onmessage_def)
  show ?thesis
    unfolding a b
    using fold_progress_status [of d now prev] fold_progress_optional [of d now prev]
      fold_progress_completion [of d now prev] fold_progress_same [of d now prev]
      run_progress_in_range [of st evs] fold_progress_not_lowered [of prev d now]
    by blast
qed

theorem progress_follows_events_witness:
  "m_type (status_ev 60) = ''status'' \<and>
   progress (onmessage (resetState\<lparr>progress := 50\<rparr>) (2, Some (status_ev 60))) = 60 \<and>
   progress (resetState\<lparr>progress := 50\<rparr>) \<le> 100 \<and>
   m_progress (status_ev 60) = Some 60 \<and>
   progress (resetState\<lparr>progress := 50\<rparr>) \<le> 60 \<and>
   progress (resetState\<lparr>progress := 50\<rparr>)
     \<le> progress (onmessage (resetState\<lparr>progress := 50\<rparr>) (2, Some (status_ev 60))) \<and>
   m_type ((msg ''phase_complete'')\<lparr>m_progress := Some 70\<rparr>)
     \<in> set [''phase_complete'', ''sources_found'', ''response_chunk''] \<and>
   progress (onmessage (resetState\<lparr>progress := 50\<rparr>)
      (2, Some ((msg ''phase_complete'')\<lparr>m_progress := Some 70\<rparr>))) = 70 \<and>
   m_type (msg ''response_chunk'') \<in> set [''phase_complete'', ''sources_found'', ''response_chunk''] \<and>
   progress (onmessage (resetState\<lparr>progress := 50\<rparr>) (2, Some (msg ''response_chunk''))) = 50 \<and>
   m_type (msg ''completion'') = ''completion'' \<and>
   progress (onmessage (resetState\<lparr>progress := 50\<rparr>) (2, Some (msg ''completion''))) = 100 \<and>
   m_type ((msg ''phase'')\<lparr>m_progress := Some 5\<rparr>) \<notin> set progress_types \<and>
   progress (onmessage (resetState\<lparr>progress := 50\<rparr>)
      (2, Some ((msg ''phase'')\<lparr>m_progress := Some 5\<rparr>))) = 50 \<and>
   progress (onmessage (resetState\<lparr>progress := 50\<rparr>) (2, None)) = 50 \<and>
   in_range (progress resetState) \<and>
   list_all carries_in_range [(0, Some (status_ev 50)), (1, Some (status_ev 10))] \<and>
   in_range (progress (run resetState [(0, Some (status_ev 50)), (1, Some (status_ev 10))])) \<and>
   progress (run resetState [(0, Some (status_ev 50)), (1, Some (status_ev 10))]) = 10"
  using progress_follows_events
      [of "status_ev 60" "resetState\<lparr>progress := 50\<rparr>" 2 resetState
          "[(0, Some (status_ev 50)), (1, Some (status_ev 10))]"]
    progress_follows_events
      [of "(msg ''phase_complete'')\<lparr>m_progress := Some 70\<rparr>" "resetState\<lparr>progress := 50\<rparr>" 2
          resetState "[]"]
    progress_follows_events
      [of "msg ''response_chunk''" "resetState\<lparr>progress := 50\<rparr>" 2 resetState "[]"]
    progress_follows_events
      [of "msg ''completion''" "resetState\<lparr>progress := 50\<rparr>" 2 resetState "[]"]
    progress_follows_events
      [of "(msg ''phase'')\<lparr>m_progress := Some 5\<rparr>" "resetState\<lparr>progress := 50\<rparr>" 2
          resetState "[]"]
  by (simp add: run_def onmessage_def onmessage_fold_def status_ev_def msg_def resetState_def
      num_or_def str_or_def in_range_def carries_in_range_def progress_types_def
      array_map_def)

section \<open>Starting while a stream is live\<close>

lemma liveHook_eq:
  "liveHook = \<lparr>streamingState = resetState\<lparr>progress := 50\<rparr>, eventSourceRef = Some 0,
               eventSources = [True]\<rparr>"
  by (simp add: liveHook_def initialHook_def startStreaming_def es_message_def onmessage_def
      onmessage_fold_def status_ev_def msg_def num_or_def)

text \<open>
  C3 as stated fails: with a stream live (\<open>isStreaming = true\<close>, progress 50), a second
  call to \<open>startStreaming\<close> resets the view model and opens a second transport; the
  first transport is not closed, so an event it delivers later is folded after an event of
  the second one.
\<close>

theorem second_start_counterexample:
  "isStreaming (streamingState liveHook) \<and>
   progress (streamingState liveHook) = 50 \<and>
   streamingState (startStreaming False liveHook) = resetState \<and>
   streamingState (startStreaming False liveHook) \<noteq> streamingState liveHook \<and>
   eventSources (startStreaming False liveHook) = [True, True] \<and>
   eventSourceRef (startStreaming False liveHook) = Some 1 \<and>
   progress (streamingState
     (es_message 0 (3, Some (status_ev 30))
       (es_message 1 (2, Some (status_ev 70)) (startStreaming False liveHook)))) = 30"
  by (simp add: liveHook_eq startStreaming_def es_message_def onmessage_def
      onmessage_fold_def status_ev_def msg_def num_or_def resetState_def)

text \<open>
  C3, amended. \<open>startStreaming\<close> does not look at the state it is called in: in every
  state, live or not, it replaces the view model by the zero state with
  \<open>isStreaming = true\<close>, opens a new transport and makes it the current one; when opening
  the transport throws, the view model is the zero state with the error
  \<open>Failed to start streaming\<close> and \<open>isStreaming = false\<close>, and no transport is added.
\<close>

theorem start_always_resets:
  "streamingState (startStreaming False h) = resetState \<and>
   eventSources (startStreaming False h) = eventSources h @ [True] \<and>
   eventSourceRef (startStreaming False h) = Some (length (eventSources h)) \<and>
   streamingState (startStreaming True h) =
     resetState\<lparr>error := Some ''Failed to start streaming'', isStreaming := False\<rparr> \<and>
   eventSources (startStreaming True h) = eventSources h \<and>
   eventSourceRef (startStreaming True h) = eventSourceRef h"
  by (simp add: startStreaming_def)

section \<open>Stopping\<close>

text \<open>
  C7. \<open>stopStreaming\<close> sets \<open>isStreaming\<close> to false, closes the current transport and
  clears the reference to it, and leaves every other field of the view model as it was, so
  the partial answer stays. When \<open>isStreaming\<close> is already false the view model is
  unchanged, and with no current transport either, nothing changes at all.
\<close>

theorem stop_keeps_view_model:
  "streamingState (stopStreaming h) = (streamingState h)\<lparr>isStreaming := False\<rparr> \<and>
   \<not> isStreaming (streamingState (stopStreaming h)) \<and>
   progress (streamingState (stopStreaming h)) = progress (streamingState h) \<and>
   currentPhase (streamingState (stopStreaming h)) = currentPhase (streamingState h) \<and>
   phaseTitle (streamingState (stopStreaming h)) = phaseTitle (streamingState h) \<and>
   streamingText (streamingState (stopStreaming h)) = streamingText (streamingState h) \<and>
   sources (streamingState (stopStreaming h)) = sources (streamingState h) \<and>
   reasoningSteps (streamingState (stopStreaming h)) = reasoningSteps (streamingState h) \<and>
   webSearchQueries (streamingState (stopStreaming h)) = webSearchQueries (streamingState h) \<and>
   factCheckStatus (streamingState (stopStreaming h)) = factCheckStatus (streamingState h) \<and>
   error (streamingState (stopStreaming h)) = error (streamingState h) \<and>
   eventSourceRef (stopStreaming h) = None \<and>
   (\<forall>k. eventSourceRef h = Some k \<and> k < length (eventSources h) \<longrightarrow>
        \<not> eventSources (stopStreaming h) ! k) \<and>
   (\<not> isStreaming (streamingState h) \<longrightarrow> streamingState (stopStreaming h) = streamingState h) \<and>
   (\<not> isStreaming (streamingState h) \<and> eventSourceRef h = None \<longrightarrow> stopStreaming h = h)"
  by (cases "eventSourceRef h") (simp_all add: stopStreaming_def Let_def)

theorem stop_keeps_view_model_witness:
  "eventSourceRef partialHook = Some 0 \<and> 0 < length (eventSources partialHook) \<and>
   isStreaming (streamingState partialHook) \<and>
   stopStreaming partialHook =
     \<lparr>streamingState = resetState\<lparr>isStreaming := False, progress := 50, streamingText := ''Plant rice''\<rparr>,
      eventSourceRef = None, eventSources = [False]\<rparr> \<and>
   \<not> eventSources (stopStreaming partialHook) ! 0 \<and>
   \<not> isStreaming (streamingState (stopStreaming partialHook)) \<and>
   eventSourceRef (stopStreaming partialHook) = None \<and>
   streamingState (stopStreaming (stopStreaming partialHook)) = streamingState (stopStreaming partialHook) \<and>
   stopStreaming (stopStreaming partialHook) = stopStreaming partialHook"
  using stop_keeps_view_model [of partialHook] stop_keeps_view_model [of "stopStreaming partialHook"]
  by (simp add: partialHook_def liveHook_eq es_message_def onmessage_def onmessage_fold_def
      msg_def str_or_def num_or_def stopStreaming_def resetState_def)

section \<open>Reasoning steps\<close>










lemma array_set_not_index: "\<not> is_array_index i \<Longrightarrow> array_set xs i v = xs"
  by (simp add: array_set_def)









section \<open>The word-by-word replay\<close>

lemma split_sp_not_Nil: "split_sp t \<noteq> []"
  by (induction t) (simp_all split: list.split)

lemma join_sp_Cons_char: "join_sp ((c # w) # ws) = c # join_sp (w # ws)"
  by (cases ws) simp_all

lemma join_sp_Nil_Cons: "ws \<noteq> [] \<Longrightarrow> join_sp ([] # ws) = CHR '' '' # join_sp ws"
  by (cases ws) simp_all

lemma join_split: "join_sp (split_sp t) = t"
proof (induction t)
  case Nil
  show ?case by simp
next
  case (Cons c cs)
  show ?case
  proof (cases "c = CHR '' ''")
    case True
    then show ?thesis using Cons.IH by (simp add: join_sp_Nil_Cons split_sp_not_Nil)
  next
    case False
    obtain w ws where ws: "split_sp cs = w # ws"
      using split_sp_not_Nil [of cs] by (cases "split_sp cs") auto
    with False Cons.IH show ?thesis by (simp add: join_sp_Cons_char)
  qed
qed

lemma join_sp_drop:
  assumes "Suc i < length words"
  shows "join_sp (drop i words) = words ! i @ '' '' @ join_sp (drop (Suc i) words)"
proof -
  from assms have "i < length words" by simp
  then have a: "drop i words = words ! i # drop (Suc i) words"
    by (rule Cons_nth_drop_Suc [symmetric])
  from assms obtain v vs where b: "drop (Suc i) words = v # vs"
    by (cases "drop (Suc i) words") auto
  show ?thesis by (simp add: a b)
qed

lemma join_sp_drop_last:
  assumes "length words = Suc i"
  shows "join_sp (drop i words) = words ! i"
proof -
  from assms have "i < length words" by simp
  then have "drop i words = words ! i # drop (Suc i) words"
    by (rule Cons_nth_drop_Suc [symmetric])
  with assms show ?thesis by simp
qed

lemma replay_last:
  "i < length words \<Longrightarrow>
     last (replay words i ct st) =
       st\<lparr>fb_streamingText := ct @ (if 0 < i then '' '' else []) @ join_sp (drop i words),
          fb_progress := 95\<rparr>"
proof (induction words i ct st rule: replay.induct)
  case (1 words i currentText st)
  let ?ct = "currentText @ (if 0 < i then '' '' else []) @ words ! i"
  let ?st = "st\<lparr>fb_streamingText := ?ct,
                fb_progress := 75 + (real (i + 1) / real (length words)) * 20\<rparr>"
  have unfold: "replay words i currentText st = ?st # replay words (i + 1) ?ct ?st"
    using "1.prems" by (subst replay.simps) (simp add: Let_def)
  show ?case
  proof (cases "i + 1 < length words")
    case True
    have ne: "replay words (i + 1) ?ct ?st \<noteq> []"
      using True by (subst replay.simps) (simp add: Let_def)
    have "last (replay words (i + 1) ?ct ?st) =
            ?st\<lparr>fb_streamingText := ?ct @ '' '' @ join_sp (drop (i + 1) words), fb_progress := 95\<rparr>"
      using "1.IH" [OF "1.prems" refl refl True] by simp
    with True ne show ?thesis by (simp add: unfold join_sp_drop)
  next
    case False
    with "1.prems" have eq: "length words = Suc i" by simp
    have e: "replay words (i + 1) ?ct ?st = []"
      using False by (subst replay.simps) simp
    have p: "75 + (real (i + 1) / real (length words)) * 20 = (95 :: real)"
      using eq by simp
    have j: "words ! i = join_sp (drop i words)"
      using eq by (rule join_sp_drop_last [symmetric])
    have "last (replay words i currentText st) = last [?st]"
      by (simp only: unfold e)
    also have "\<dots> = ?st" by simp
    also have "\<dots> = st\<lparr>fb_streamingText :=
                           currentText @ (if 0 < i then '' '' else []) @ join_sp (drop i words),
                         fb_progress := 95\<rparr>"
      by (simp only: p j [symmetric])
    finally show ?thesis .
  qed
qed

lemma replay_not_Nil: "i < length words \<Longrightarrow> replay words i ct st \<noteq> []"
  by (subst replay.simps) (simp add: Let_def)

lemma replay_split_last:
  "last (replay (split_sp t) 0 [] st) = st\<lparr>fb_streamingText := t, fb_progress := 95\<rparr>"
  using replay_last [of 0 "split_sp t" "[]" st] split_sp_not_Nil [of t]
  by (simp add: join_split)

lemma fb_trace_eq:
  assumes "truthy_str token"
    and "find (\<lambda>m. cm_role m = ''assistant'') response = Some aiMessage"
  shows "\<exists>pre states. fb_startStreaming token (Inr response) =
           pre @ states @
             [fb_complete aiMessage (fb_replayed (cm_content aiMessage)),
              (fb_complete aiMessage (fb_replayed (cm_content aiMessage)))\<lparr>fb_isStreaming := False\<rparr>] \<and>
           states \<noteq> [] \<and> last states = fb_replayed (cm_content aiMessage)"
proof -
  let ?s5 = "fb_reset\<lparr>fb_progress := 75, fb_phaseTitle := ''Delivering response...'',
                      fb_currentPhase := ''response''\<rparr>"
  let ?states = "replay (split_sp (cm_content aiMessage)) 0 [] ?s5"
  have ne: "?states \<noteq> []"
    using split_sp_not_Nil [of "cm_content aiMessage"] by (intro replay_not_Nil) simp
  have l: "last ?states = fb_replayed (cm_content aiMessage)"
    by (simp add: replay_split_last fb_replayed_def fb_reset_def)
  from assms(2) have r: "response \<noteq> []" by auto
  have "fb_startStreaming token (Inr response) =
          [fb_reset,
           fb_reset\<lparr>fb_progress := 15, fb_phaseTitle := ''Connecting to agricultural AI...''\<rparr>,
           fb_reset\<lparr>fb_progress := 30, fb_phaseTitle := ''Analyzing your query...''\<rparr>,
           fb_reset\<lparr>fb_progress := 45, fb_phaseTitle := ''Searching knowledge base...''\<rparr>,
           fb_reset\<lparr>fb_progress := 60, fb_phaseTitle := ''Generating response...''\<rparr>,
           ?s5] @ ?states @
          [fb_complete aiMessage (fb_replayed (cm_content aiMessage)),
           (fb_complete aiMessage (fb_replayed (cm_content aiMessage)))\<lparr>fb_isStreaming := False\<rparr>]"
    using assms r ne l by (simp add: fb_startStreaming_def Let_def)
  with ne l show ?thesis by blast
qed

text \<open>
  C8. In the hook without push transport, when a token is stored and the request returns a
  list with an assistant message of content \<open>t\<close>, the last three states that
  \<open>startStreaming\<close> sets are: the end of the word-by-word replay, whose
  \<open>streamingText\<close> is exactly \<open>t\<close>; then the completion update, with \<open>progress = 100\<close>
  and still streaming; then the same state with \<open>isStreaming = false\<close>. Splitting on
  single spaces and joining the words again is a round trip.
\<close>

theorem fallback_replay_round_trip:
  assumes "truthy_str token"
    and "find (\<lambda>m. cm_role m = ''assistant'') response = Some aiMessage"
  shows "last (butlast (butlast (fb_startStreaming token (Inr response))))
           = fb_replayed (cm_content aiMessage) \<and>
         last (butlast (fb_startStreaming token (Inr response)))
           = fb_complete aiMessage (fb_replayed (cm_content aiMessage)) \<and>
         last (fb_startStreaming token (Inr response))
           = (fb_complete aiMessage (fb_replayed (cm_content aiMessage)))\<lparr>fb_isStreaming := False\<rparr> \<and>
         fb_streamingText (last (butlast (butlast (fb_startStreaming token (Inr response)))))
           = cm_content aiMessage \<and>
         fb_progress (last (butlast (fb_startStreaming token (Inr response)))) = 100 \<and>
         fb_isStreaming (last (butlast (fb_startStreaming token (Inr response)))) \<and>
         fb_streamingText (last (fb_startStreaming token (Inr response))) = cm_content aiMessage \<and>
         fb_progress (last (fb_startStreaming token (Inr response))) = 100 \<and>
         \<not> fb_isStreaming (last (fb_startStreaming token (Inr response))) \<and>
         fb_error (last (fb_startStreaming token (Inr response))) = None"
proof -
  from fb_trace_eq [OF assms] obtain pre states where
    tr: "fb_startStreaming token (Inr response) =
           pre @ states @
             [fb_complete aiMessage (fb_replayed (cm_content aiMessage)),
              (fb_complete aiMessage (fb_replayed (cm_content aiMessage)))\<lparr>fb_isStreaming := False\<rparr>]"
    and ne: "states \<noteq> []" and l: "last states = fb_replayed (cm_content aiMessage)"
    by blast
  have b1: "butlast (fb_startStreaming token (Inr response)) =
              pre @ states @ [fb_complete aiMessage (fb_replayed (cm_content aiMessage))]"
    by (simp add: tr butlast_append)
  have b2: "butlast (butlast (fb_startStreaming token (Inr response))) = pre @ states"
    by (simp add: b1 butlast_append)
  have l2: "last (butlast (butlast (fb_startStreaming token (Inr response))))
              = fb_replayed (cm_content aiMessage)"
    using ne l by (simp add: b2)
  have l1: "last (butlast (fb_startStreaming token (Inr response)))
              = fb_complete aiMessage (fb_replayed (cm_content aiMessage))"
    by (simp add: b1)
  have l0: "last (fb_startStreaming token (Inr response))
              = (fb_complete aiMessage (fb_replayed (cm_content aiMessage)))\<lparr>fb_isStreaming := False\<rparr>"
    by (simp add: tr)
  show ?thesis
    unfolding l2 l1 l0 by (simp add: fb_complete_def fb_replayed_def)
qed

theorem fallback_replay_round_trip_witness:
  "truthy_str (Some ''tok'') \<and>
   find (\<lambda>m. cm_role m = ''assistant'')
     [chat_message ''user'' ''When?'', chat_message ''assistant'' ''Plant rice now'']
     = Some (chat_message ''assistant'' ''Plant rice now'') \<and>
   fb_streamingText (last (butlast (butlast (fb_startStreaming (Some ''tok'')
     (Inr [chat_message ''user'' ''When?'', chat_message ''assistant'' ''Plant rice now''])))))
     = ''Plant rice now'' \<and>
   fb_progress (last (butlast (fb_startStreaming (Some ''tok'')
     (Inr [chat_message ''user'' ''When?'', chat_message ''assistant'' ''Plant rice now''])))) = 100 \<and>
   fb_isStreaming (last (butlast (fb_startStreaming (Some ''tok'')
     (Inr [chat_message ''user'' ''When?'', chat_message ''assistant'' ''Plant rice now''])))) \<and>
   fb_streamingText (last (fb_startStreaming (Some ''tok'')
     (Inr [chat_message ''user'' ''When?'', chat_message ''assistant'' ''Plant rice now''])))
     = ''Plant rice now'' \<and>
   \<not> fb_isStreaming (last (fb_startStreaming (Some ''tok'')
     (Inr [chat_message ''user'' ''When?'', chat_message ''assistant'' ''Plant rice now''])))"
proof -
  have h1: "truthy_str (Some ''tok'')" by (simp add: truthy_str_def)
  have h2: "find (\<lambda>m. cm_role m = ''assistant'')
     [chat_message ''user'' ''When?'', chat_message ''assistant'' ''Plant rice now'']
     = Some (chat_message ''assistant'' ''Plant rice now'')"
    by (simp add: chat_message_def)
  have c: "cm_content (chat_message ''assistant'' ''Plant rice now'') = ''Plant rice now''"
    by (simp add: chat_message_def)
  show ?thesis
    using h1 h2 fallback_replay_round_trip [OF h1 h2]
    by (simp add: c fb_complete_def fb_replayed_def)
qed

section \<open>Rolling back the optimistic user message\<close>

lemma readyChat_typed: "\<not> trim_empty ''When to plant rice?''"
  by (simp add: trim_empty_def is_ws_def)

lemma toString_1000: "toString 1000 = ''1000''"
  by (simp add: toString_def digits.simps)

lemma toString_6000: "toString 6000 = ''6000''"
  by (simp add: toString_def digits.simps)

text \<open>
  What the \<open>catch\<close> block does to the list: it drops the user messages whose timestamp
  is less than 1000 ms away from the time of the failure, keeps all others, and appends
  the error message.
\<close>

lemma catch_keeps_outside_window:
  "m \<in> set (messages st) \<Longrightarrow> msg_role m = Assistant \<or> 1000 \<le> \<bar>msg_timestamp m - t_catch clk\<bar>
     \<Longrightarrow> m \<in> set (messages (sendMessage_catch clk typed e st))"
  by (auto simp: sendMessage_catch_def Let_def)

lemma catch_drops_inside_window:
  "msg_role m = User \<Longrightarrow> \<bar>msg_timestamp m - t_catch clk\<bar> < 1000
     \<Longrightarrow> m \<notin> set (messages (sendMessage_catch clk typed e st))"
  by (auto simp: sendMessage_catch_def Let_def)

text \<open>
  C9 at a failing input. The user message is made at time 1000, the request is rejected
  and the \<open>catch\<close> runs at time 6000: the optimistic user message is still in the list,
  followed by the error message.
\<close>

theorem slow_failure_keeps_user_message:
  "messages (sendMessage slowClock (Inr ''s1'') (Inl (ErrorObj ''Request timed out'')) readyChat) =
     [\<lparr>msg_id = ''1000'', msg_role = User, msg_content = ''When to plant rice?'',
       msg_timestamp = 1000\<rparr>,
      \<lparr>msg_id = ''6000'', msg_role = Assistant, msg_content = ''**Error**: Request timed out'',
       msg_timestamp = 6000\<rparr>]"
  by (simp add: sendMessage_def sendMessage_catch_def readyChat_def slowClock_def
      readyChat_typed toString_1000 toString_6000 Let_def)

end
